theory Spec2Isabelle
  imports Main
begin

section \<open>Values of the REST client notebook\<close>

text \<open>
  The notebook \<^verbatim>\<open>Functional-Python-Part-3.ipynb\<close> (second document of the file) builds a
  REST client out of small functions. Its values are dynamically typed, so the model has
  one type for the decoded JSON bodies and one for the values that flow through the
  response pipeline.

  A JSON body decodes to \<^verbatim>\<open>None\<close>, a \<^verbatim>\<open>bool\<close>, an \<^verbatim>\<open>int\<close>, a \<^verbatim>\<open>float\<close>
  (mantissa and binary exponent), a \<^verbatim>\<open>str\<close>, a \<^verbatim>\<open>list\<close> or a \<^verbatim>\<open>dict\<close>. A dict is
  the list of its items, looked up with \<open>map_of\<close>.
\<close>

datatype jvalue =
    JNull
  | JBool bool
  | JInt int
  | JFloat int int
  | JStr string
  | JList "jvalue list"
  | JDict "(string \<times> jvalue) list"

text \<open>A header set is a Python \<^verbatim>\<open>dict\<close> from header names to header values.\<close>

type_synonym hdrs = "string \<rightharpoonup> string"

text \<open>
  The \<^verbatim>\<open>requests.Response\<close> object, with the attributes the notebook reads:
  \<^verbatim>\<open>url\<close>, \<^verbatim>\<open>status_code\<close>, \<^verbatim>\<open>ok\<close>, \<^verbatim>\<open>elapsed\<close> (a timedelta, in microseconds),
  \<^verbatim>\<open>content\<close> (the raw bytes) and the method \<^verbatim>\<open>json()\<close>, which is \<open>None\<close> when the
  body is not JSON (the call then raises a decode error).
\<close>

record response =
  url :: string
  status_code :: int
  ok :: bool
  elapsed :: int
  content :: string
  json :: "jvalue option"

text \<open>
  The dataclass \<^verbatim>\<open>Todo\<close>. Python stores whatever object the constructor was given, so
  the fields hold decoded values; \<^verbatim>\<open>validate\<close> decides which ones are accepted.
  The field \<^verbatim>\<open>id\<close> is named \<open>todo_id\<close> (\<open>id\<close> is the identity function of HOL).
\<close>

record todo =
  todo_id :: jvalue
  user_id :: jvalue
  title :: jvalue
  completed :: jvalue

text \<open>The values a pipeline stage receives or returns.\<close>

datatype pyval =
    PResponse response
  | PTodo todo
  | PNone
  | PJson jvalue

text \<open>
  Exceptions, by class, with the data their messages are formatted from:
  \<open>FieldTypeError\<close> is the \<^verbatim>\<open>TypeError\<close> of \<^verbatim>\<open>validate\<close> (field name and offending
  value), \<open>Failure\<close> the \<^verbatim>\<open>Exception\<close> of \<^verbatim>\<open>default_error_handler\<close> (url, status code
  and body excerpt), \<open>JSONDecodeError\<close> what \<^verbatim>\<open>response.json()\<close> raises on a body that
  is not JSON, \<open>TransportError\<close> whatever \<^verbatim>\<open>requests.get\<close> raises.
\<close>

datatype exn =
    AttributeError string
  | KeyError string
  | TypeError string
  | FieldTypeError string jvalue
  | JSONDecodeError
  | Failure string int string
  | TransportError string

text \<open>
  What a stage writes to standard output: the line of \<^verbatim>\<open>simple_logger\<close> (url, status
  code, elapsed time; the wall-clock timestamp is left out) and the line printed by the
  early revisions of \<^verbatim>\<open>to_get\<close> (url and the header dict).
\<close>

datatype event =
    LogLine string int int
  | MakingRequest string hdrs

text \<open>
  A stage of the response pipeline is a unary function: it may print, and it returns a
  value or raises.
\<close>

type_synonym stage = "pyval \<Rightarrow> event list \<times> (exn + pyval)"

section \<open>The Todo model\<close>

datatype pytype = TInt | TStr | TBool

text \<open>\<^verbatim>\<open>isinstance\<close> on decoded values; \<^verbatim>\<open>bool\<close> is a subclass of \<^verbatim>\<open>int\<close>.\<close>

fun isinstance :: "jvalue \<Rightarrow> pytype \<Rightarrow> bool" where
  "isinstance (JInt i) TInt = True"
| "isinstance (JBool b) TInt = True"
| "isinstance (JStr s) TStr = True"
| "isinstance (JBool b) TBool = True"
| "isinstance v ty = False"

text \<open>
  \<^verbatim>\<open>fields(instance)\<close>: the declared fields of \<^verbatim>\<open>Todo\<close>, in order (the record
  package uses the name \<open>fields\<close> itself).
\<close>

definition dataclass_fields :: "(string \<times> pytype) list" where
  "dataclass_fields = [(''id'', TInt), (''user_id'', TInt), (''title'', TStr), (''completed'', TBool)]"

definition getattr :: "todo \<Rightarrow> string \<Rightarrow> exn + jvalue" where
  "getattr t n =
     (if n = ''id'' then Inr (todo_id t)
      else if n = ''user_id'' then Inr (user_id t)
      else if n = ''title'' then Inr (title t)
      else if n = ''completed'' then Inr (completed t)
      else Inl (AttributeError n))"

text \<open>The loop of \<^verbatim>\<open>validate\<close>: the first field that fails the check raises.\<close>

fun validate_loop :: "todo \<Rightarrow> (string \<times> pytype) list \<Rightarrow> exn + unit" where
  "validate_loop t [] = Inr ()"
| "validate_loop t ((n, ty) # fs) =
     (case getattr t n of
        Inl e \<Rightarrow> Inl e
      | Inr attr \<Rightarrow>
          if \<not> isinstance attr ty then Inl (FieldTypeError n attr)
          else validate_loop t fs)"

definition validate :: "todo \<Rightarrow> exn + unit" where
  "validate instance = validate_loop instance dataclass_fields"

text \<open>The constructor \<^verbatim>\<open>Todo(id, user_id, title, completed)\<close> with its \<^verbatim>\<open>__post_init__\<close>.\<close>

definition Todo :: "jvalue \<Rightarrow> jvalue \<Rightarrow> jvalue \<Rightarrow> jvalue \<Rightarrow> exn + todo" where
  "Todo a b c d =
     (let self = \<lparr>todo_id = a, user_id = b, title = c, completed = d\<rparr>
      in case validate self of Inl e \<Rightarrow> Inl e | Inr u \<Rightarrow> Inr self)"

text \<open>\<^verbatim>\<open>d[k]\<close> with a string key, on each kind of decoded value.\<close>

fun subscript :: "jvalue \<Rightarrow> string \<Rightarrow> exn + jvalue" where
  "subscript (JDict kvs) k = (case map_of kvs k of None \<Rightarrow> Inl (KeyError k) | Some v \<Rightarrow> Inr v)"
| "subscript (JList xs) k = Inl (TypeError ''list indices must be integers or slices, not str'')"
| "subscript (JStr s) k = Inl (TypeError ''string indices must be integers'')"
| "subscript v k = Inl (TypeError ''object is not subscriptable'')"

text \<open>\<^verbatim>\<open>Todo.from_d\<close>: the four lookups in the order of the argument list, then the constructor.\<close>

definition from_d :: "jvalue \<Rightarrow> exn + todo" where
  "from_d d =
     (case subscript d ''id'' of Inl e \<Rightarrow> Inl e | Inr a \<Rightarrow>
      case subscript d ''userId'' of Inl e \<Rightarrow> Inl e | Inr b \<Rightarrow>
      case subscript d ''title'' of Inl e \<Rightarrow> Inl e | Inr c \<Rightarrow>
      case subscript d ''completed'' of Inl e \<Rightarrow> Inl e | Inr x \<Rightarrow>
      Todo a b c x)"

section \<open>Stages\<close>

definition null_tranform :: stage where
  "null_tranform response = ([], Inr response)"

definition null_logger :: stage where
  "null_logger response = ([], Inr response)"

definition simple_logger :: stage where
  "simple_logger response =
     (case response of
        PResponse r \<Rightarrow> ([LogLine (url r) (status_code r) (elapsed r)], Inr response)
      | _ \<Rightarrow> ([], Inl (AttributeError ''elapsed'')))"

definition default_error_handler :: stage where
  "default_error_handler response =
     (case response of
        PResponse r \<Rightarrow>
          if \<not> ok r then ([], Inl (Failure (url r) (status_code r) (take 25 (content r))))
          else ([], Inr response)
      | _ \<Rightarrow> ([], Inl (AttributeError ''ok'')))"

definition to_todo :: stage where
  "to_todo response =
     (case response of
        PResponse r \<Rightarrow>
          (case json r of
             None \<Rightarrow> ([], Inl JSONDecodeError)
           | Some d \<Rightarrow> (case from_d d of Inl e \<Rightarrow> ([], Inl e) | Inr t \<Rightarrow> ([], Inr (PTodo t))))
      | _ \<Rightarrow> ([], Inl (AttributeError ''json'')))"

text \<open>
  \<^verbatim>\<open>to_todo_or_none\<close>: the same body inside \<^verbatim>\<open>try\<close>, with
  \<^verbatim>\<open>except (KeyError, AttributeError): return None\<close>.
\<close>

definition to_todo_or_none :: stage where
  "to_todo_or_none response =
     (let attempt =
        (case response of
           PResponse r \<Rightarrow>
             (case json r of
                None \<Rightarrow> Inl JSONDecodeError
              | Some d \<Rightarrow> (case from_d d of Inl e \<Rightarrow> Inl e | Inr t \<Rightarrow> Inr (PTodo t)))
         | _ \<Rightarrow> Inl (AttributeError ''json''))
      in case attempt of
           Inl (KeyError k) \<Rightarrow> ([], Inr PNone)
         | Inl (AttributeError n) \<Rightarrow> ([], Inr PNone)
         | other \<Rightarrow> ([], other))"

section \<open>Composition\<close>

text \<open>
  \<^verbatim>\<open>functools.reduce(function, iterable)\<close> without an initial value: a \<^verbatim>\<open>TypeError\<close> on
  an empty sequence, a left fold from the first element otherwise.
\<close>

fun reduce :: "('a \<Rightarrow> 'a \<Rightarrow> 'a) \<Rightarrow> 'a list \<Rightarrow> exn + 'a" where
  "reduce f [] = Inl (TypeError ''reduce() of empty sequence with no initial value'')"
| "reduce f (x # xs) = Inr (foldl f x xs)"

text \<open>
  \<^verbatim>\<open>compose_two(f, g)\<close> is \<^verbatim>\<open>c(x) = f(g(x))\<close>: \<open>g\<close> runs, and when it raises \<open>f\<close> is
  not called.
\<close>

definition compose_two :: "stage \<Rightarrow> stage \<Rightarrow> stage" where
  "compose_two f g x =
     (case g x of
        (evs, Inl e) \<Rightarrow> (evs, Inl e)
      | (evs, Inr y) \<Rightarrow> (case f y of (evs', res) \<Rightarrow> (evs @ evs', res)))"

definition compose :: "stage list \<Rightarrow> exn + stage" where
  "compose funcs = reduce compose_two funcs"

section \<open>The request pipeline\<close>

text \<open>\<^verbatim>\<open>sep.join(xs)\<close> on a list of strings.\<close>

fun join :: "string \<Rightarrow> string list \<Rightarrow> string" where
  "join sep [] = []"
| "join sep [x] = x"
| "join sep (x # y # ys) = x @ sep @ join sep (y # ys)"

text \<open>
  A dispatched request: what \<^verbatim>\<open>requests.get(url, **kw)\<close> is called with. The world
  holds the header dicts by address (the closure keeps a reference to the caller's dict),
  the requests dispatched so far and the lines printed so far. The transport is the
  environment: it answers a request, given the requests dispatched before it, with a
  response or an exception.
\<close>

record request =
  req_url :: string
  req_headers :: hdrs
  req_opts :: "(string \<times> jvalue) list"

record world =
  store :: "nat \<Rightarrow> hdrs"
  sent :: "request list"
  out :: "event list"

type_synonym transport = "request list \<Rightarrow> request \<Rightarrow> exn + response"

text \<open>
  The keyword arguments of a call: \<^verbatim>\<open>headers\<close> (absent or a dict) and everything that
  is handed on to \<^verbatim>\<open>requests.get\<close>; the later revisions also take \<^verbatim>\<open>transform\<close>.
\<close>

record kwargs0 =
  kw_headers :: "hdrs option"
  kw_rest :: "(string \<times> jvalue) list"

record kwargs = kwargs0 +
  kw_transform :: "stage option"

text \<open>
  The arguments of \<^verbatim>\<open>to_get(base_url, headers=None, error_handler=None, logger=None)\<close>,
  closed over by the function it returns. \<open>headers\<close> is \<open>None\<close> or the address of a dict.
\<close>

record config =
  base_url :: string
  headers :: "nat option"
  error_handler :: "stage option"
  logger :: "stage option"

text \<open>
  The first revision with headers (\<^verbatim>\<open>to_get(base_url, headers=None)\<close>): merge, join,
  print, dispatch. \<^verbatim>\<open>headers.update(h)\<close> on \<^verbatim>\<open>None\<close> raises \<^verbatim>\<open>AttributeError\<close>.
\<close>

definition to_get_v2 ::
  "transport \<Rightarrow> string \<Rightarrow> nat option \<Rightarrow> string \<Rightarrow> kwargs0 \<Rightarrow> world \<Rightarrow> (exn + pyval) \<times> world" where
  "to_get_v2 requests_get base hdr segment kw w =
     (let h = (case kw_headers kw of None \<Rightarrow> Map.empty | Some h \<Rightarrow> h)
      in case hdr of
           None \<Rightarrow> (Inl (AttributeError ''update''), w)
         | Some a \<Rightarrow>
             (let w1 = w\<lparr>store := (store w)(a := store w a ++ h)\<rparr>;
                  u = join ''/'' [base, segment];
                  rq = \<lparr>req_url = u, req_headers = store w1 a, req_opts = kw_rest kw\<rparr>;
                  w2 = w1\<lparr>out := out w1 @ [MakingRequest u (store w1 a)]\<rparr>;
                  w3 = w2\<lparr>sent := sent w2 @ [rq]\<rparr>
              in case requests_get (sent w2) rq of
                   Inl e \<Rightarrow> (Inl e, w3)
                 | Inr r \<Rightarrow> (Inr (PResponse r), w3)))"

text \<open>
  The final revision: the function \<^verbatim>\<open>f(segment, **kw)\<close> returned by
  \<^verbatim>\<open>to_get(base_url, headers, error_handler, logger)\<close>.
\<close>

definition to_get ::
  "transport \<Rightarrow> config \<Rightarrow> string \<Rightarrow> kwargs \<Rightarrow> world \<Rightarrow> (exn + pyval) \<times> world" where
  "to_get requests_get c segment kw w =
     (let u = join ''/'' [base_url c, segment];
          h = (case kw_headers kw of None \<Rightarrow> Map.empty | Some h \<Rightarrow> h)
      in case headers c of
           None \<Rightarrow> (Inl (AttributeError ''update''), w)
         | Some a \<Rightarrow>
             (let w1 = w\<lparr>store := (store w)(a := store w a ++ h)\<rparr>;
                  transform_func = (case kw_transform kw of None \<Rightarrow> null_tranform | Some t \<Rightarrow> t);
                  err_handler = (case error_handler c of None \<Rightarrow> null_tranform | Some e \<Rightarrow> e);
                  logger_func = (case logger c of None \<Rightarrow> null_tranform | Some l \<Rightarrow> l)
              in case compose [transform_func, err_handler, logger_func] of
                   Inl e \<Rightarrow> (Inl e, w1)
                 | Inr transform \<Rightarrow>
                     (let rq = \<lparr>req_url = u, req_headers = store w1 a, req_opts = kw_rest kw\<rparr>;
                          w2 = w1\<lparr>sent := sent w1 @ [rq]\<rparr>
                      in case requests_get (sent w1) rq of
                           Inl e \<Rightarrow> (Inl e, w2)
                         | Inr r \<Rightarrow>
                             (case transform (PResponse r) of
                                (evs, res) \<Rightarrow> (res, w2\<lparr>out := out w2 @ evs\<rparr>)))))"

text \<open>A sequence of calls of one pipeline, each on the world the previous one left.\<close>

fun calls :: "(string \<Rightarrow> 'k \<Rightarrow> world \<Rightarrow> 'r \<times> world) \<Rightarrow> (string \<times> 'k) list \<Rightarrow> world \<Rightarrow> world" where
  "calls f [] w = w"
| "calls f ((segment, kw) # cs) w = calls f cs (snd (f segment kw w))"

section \<open>Names for the parts of a call\<close>

text \<open>
  Three sub-expressions of \<^verbatim>\<open>to_get\<close>, named so that the theorems can speak of them:
  the overlay \<^verbatim>\<open>kw.get('headers', {})\<close>, a stage argument with its
  \<^verbatim>\<open>null_tranform\<close> default, and the request the call hands to \<^verbatim>\<open>requests.get\<close>.
\<close>

definition overlay :: "'a kwargs0_scheme \<Rightarrow> hdrs" where
  "overlay kw = (case kw_headers kw of None \<Rightarrow> Map.empty | Some h \<Rightarrow> h)"

definition chosen :: "stage option \<Rightarrow> stage" where
  "chosen s = (case s of None \<Rightarrow> null_tranform | Some f \<Rightarrow> f)"

definition request_of :: "config \<Rightarrow> nat \<Rightarrow> string \<Rightarrow> kwargs \<Rightarrow> world \<Rightarrow> request" where
  "request_of c a segment kw w =
     \<lparr>req_url = base_url c @ ''/'' @ segment, req_headers = store w a ++ overlay kw,
      req_opts = kw_rest kw\<rparr>"

text \<open>
  The order of application as the specification words it: the stages of a list run one
  after the other, each on the value the previous one returned; the first one that
  raises ends the run. This definition is not taken from the code; the code's
  \<open>compose\<close> is compared with it.
\<close>

fun run_in_order :: "stage list \<Rightarrow> stage" where
  "run_in_order [] x = ([], Inr x)"
| "run_in_order (s # ss) x =
     (case s x of
        (evs, Inl e) \<Rightarrow> (evs, Inl e)
      | (evs, Inr y) \<Rightarrow> (case run_in_order ss y of (evs', res) \<Rightarrow> (evs @ evs', res)))"

text \<open>
  A doubled separator at the join point, as the specification words it: the url reads
  \<^verbatim>\<open>//\<close> where the base address ends or where the segment begins. This definition
  is not taken from the code either.
\<close>

definition doubled_separator_at_join :: "string \<Rightarrow> string \<Rightarrow> bool" where
  "doubled_separator_at_join base u \<longleftrightarrow>
     take 2 (drop (length base - 1) u) = ''//'' \<or> take 2 (drop (length base) u) = ''//''"

section \<open>Example runs\<close>

text \<open>
  The constants and responses of the notebook's cells: the base url, the default header
  dict, the answer to \<^verbatim>\<open>todos/1\<close> and the 404 answer with body \<^verbatim>\<open>{}\<close>, with
  the recorded elapsed times. The other answers are not in the notebook: \<open>home_page\<close>,
  an ok answer for the root url whose body is not JSON; \<open>mistyped_todo\<close>, the first
  answer with a string for \<^verbatim>\<open>id\<close>; \<open>todo_list\<close>, an ok answer whose body is a JSON
  list; and the transport \<open>redirected\<close>, which answers every request with a 404 response
  for another url, as after a redirect. The body bytes of the ok answers are abbreviated.
\<close>

definition BASE_URL :: string where
  "BASE_URL = ''https://jsonplaceholder.typicode.com''"

definition DEFAULT_HEADER :: hdrs where
  "DEFAULT_HEADER = [''x-my-header'' \<mapsto> ''12345'']"

definition first_todo :: response where
  "first_todo =
     \<lparr>url = ''https://jsonplaceholder.typicode.com/todos/1'', status_code = 200, ok = True,
      elapsed = 67777, content = ''{ userId: 1, id: 1, ... }'',
      json = Some (JDict [(''userId'', JInt 1), (''id'', JInt 1),
                          (''title'', JStr ''delectus aut autem''), (''completed'', JBool False)])\<rparr>"

definition mistyped_todo :: response where
  "mistyped_todo =
     first_todo\<lparr>json := Some (JDict [(''userId'', JInt 1), (''id'', JStr ''1''),
                          (''title'', JStr ''delectus aut autem''), (''completed'', JBool False)])\<rparr>"

definition not_found :: "string \<Rightarrow> response" where
  "not_found u =
     \<lparr>url = u, status_code = 404, ok = False, elapsed = 244881, content = ''{}'',
      json = Some (JDict [])\<rparr>"

definition home_page :: response where
  "home_page =
     \<lparr>url = ''https://jsonplaceholder.typicode.com/'', status_code = 200, ok = True,
      elapsed = 50000, content = ''<!DOCTYPE html>'', json = None\<rparr>"

definition service :: transport where
  "service earlier rq =
     (if req_url rq = ''https://jsonplaceholder.typicode.com/todos/1'' then Inr first_todo
      else if req_url rq = ''https://jsonplaceholder.typicode.com/'' then Inr home_page
      else Inr (not_found (req_url rq)))"

definition todo_list :: response where
  "todo_list =
     first_todo\<lparr>url := ''https://jsonplaceholder.typicode.com/todos'', json := Some (JList [])\<rparr>"


definition world0 :: world where
  "world0 = \<lparr>store = (\<lambda>a. Map.empty)(0 := DEFAULT_HEADER), sent = [], out = []\<rparr>"

definition rget :: config where
  "rget = \<lparr>base_url = BASE_URL, headers = Some 0,
           error_handler = Some default_error_handler, logger = Some simple_logger\<rparr>"

definition no_kw :: kwargs where
  "no_kw = \<lparr>kw_headers = None, kw_rest = [], kw_transform = None\<rparr>"

definition accept_html :: hdrs where
  "accept_html = [''accept'' \<mapsto> ''text/html'']"

lemmas example_defs = BASE_URL_def DEFAULT_HEADER_def first_todo_def not_found_def home_page_def
  service_def world0_def rget_def no_kw_def

section \<open>What one call does\<close>

lemma compose_three: "compose [t, e, l] = Inr (compose_two (compose_two t e) l)"
  by (simp add: compose_def)

lemma compose_two_in_order:
  "compose_two (compose_two t e) l x = run_in_order [l, e, t] x"
  by (auto simp: compose_two_def split: prod.splits sum.splits)

lemma to_get_Some:
  assumes "headers c = Some a"
  shows "to_get g c s kw w =
     (let rq = request_of c a s kw w;
          w2 = w\<lparr>store := (store w)(a := store w a ++ overlay kw), sent := sent w @ [rq]\<rparr>
      in case g (sent w) rq of
           Inl e \<Rightarrow> (Inl e, w2)
         | Inr r \<Rightarrow>
             (case run_in_order [chosen (logger c), chosen (error_handler c),
                                 chosen (kw_transform kw)] (PResponse r) of
                (evs, res) \<Rightarrow> (res, w2\<lparr>out := out w @ evs\<rparr>)))"
  using assms
  by (simp add: to_get_def compose_three compose_two_in_order overlay_def chosen_def
      request_of_def Let_def del: run_in_order.simps split: sum.splits prod.splits)

lemma sent_to_get:
  "headers c = Some a \<Longrightarrow>
   sent (snd (to_get g c s kw w)) = sent w @ [request_of c a s kw w]"
  by (simp add: to_get_Some Let_def split: sum.splits prod.splits del: run_in_order.simps)

lemma store_to_get:
  "headers c = Some a \<Longrightarrow>
   store (snd (to_get g c s kw w)) = (store w)(a := store w a ++ overlay kw)"
  by (simp add: to_get_Some Let_def split: sum.splits prod.splits del: run_in_order.simps)

lemma fst_to_get:
  "headers c = Some a \<Longrightarrow>
   fst (to_get g c s kw w) =
     (case g (sent w) (request_of c a s kw w) of
        Inl e \<Rightarrow> Inl e
      | Inr r \<Rightarrow> snd (run_in_order [chosen (logger c), chosen (error_handler c),
                                     chosen (kw_transform kw)] (PResponse r)))"
  by (simp add: to_get_Some Let_def split: sum.splits prod.splits del: run_in_order.simps)

lemma store_to_get_v2:
  "store (snd (to_get_v2 g base (Some a) s kw w)) a = store w a ++ overlay kw"
  by (simp add: to_get_v2_def overlay_def Let_def split: sum.splits)

lemma sent_to_get_v2:
  "sent (snd (to_get_v2 g base (Some a) s kw w)) =
     sent w @ [\<lparr>req_url = base @ ''/'' @ s, req_headers = store w a ++ overlay kw,
                req_opts = kw_rest kw\<rparr>]"
  by (simp add: to_get_v2_def overlay_def Let_def split: sum.splits)

section \<open>The order of the stages\<close>

text \<open>
  Claim C1. When the default headers are configured and the transport answers with a
  response \<open>r\<close>, a call of fetch returns what the three stages give when they run on
  \<open>r\<close> in the order logger, error classifier, caller's transform, and prints what they
  print in that order. The loggers of the notebook (none, \<open>null_logger\<close>,
  \<open>simple_logger\<close>) return the response they were given; whenever the logger does so,
  the classifier is applied to the raw response \<open>r\<close> itself, and the transform only
  to what the classifier returns.
\<close>

theorem stage_order:
  assumes "headers c = Some a"
    and "requests_get (sent w) (request_of c a segment kw w) = Inr r"
  shows "fst (to_get requests_get c segment kw w) =
           snd (run_in_order [chosen (logger c), chosen (error_handler c),
                              chosen (kw_transform kw)] (PResponse r))
       \<and> out (snd (to_get requests_get c segment kw w)) =
           out w @ fst (run_in_order [chosen (logger c), chosen (error_handler c),
                                      chosen (kw_transform kw)] (PResponse r))
       \<and> (logger c \<in> {None, Some null_logger, Some simple_logger} \<longrightarrow>
            snd (chosen (logger c) (PResponse r)) = Inr (PResponse r))
       \<and> (snd (chosen (logger c) (PResponse r)) = Inr (PResponse r) \<longrightarrow>
            fst (to_get requests_get c segment kw w) =
              (case chosen (error_handler c) (PResponse r) of
                 (evs, Inl e) \<Rightarrow> Inl e
               | (evs, Inr y) \<Rightarrow> snd (chosen (kw_transform kw) y)))"
proof -
  let ?chain = "run_in_order [chosen (logger c), chosen (error_handler c), chosen (kw_transform kw)]"
  have res: "fst (to_get requests_get c segment kw w) = snd (?chain (PResponse r))"
    using assms by (simp add: to_get_Some Let_def split: prod.splits del: run_in_order.simps)
  have log: "out (snd (to_get requests_get c segment kw w)) = out w @ fst (?chain (PResponse r))"
    using assms by (simp add: to_get_Some Let_def split: prod.splits del: run_in_order.simps)
  have src: "logger c \<in> {None, Some null_logger, Some simple_logger} \<longrightarrow>
            snd (chosen (logger c) (PResponse r)) = Inr (PResponse r)"
    by (auto simp: chosen_def null_tranform_def null_logger_def simple_logger_def)
  have same: "snd (chosen (logger c) (PResponse r)) = Inr (PResponse r) \<longrightarrow>
            snd (?chain (PResponse r)) =
              (case chosen (error_handler c) (PResponse r) of
                 (evs, Inl e) \<Rightarrow> Inl e
               | (evs, Inr y) \<Rightarrow> snd (chosen (kw_transform kw) y))"
    by (auto split: prod.splits sum.splits)
  show ?thesis using res log src same by simp
qed

theorem stage_order_witness:
  "headers rget = Some 0
   \<and> service (sent world0)
       (request_of rget 0 ''todos/1'' (no_kw\<lparr>kw_transform := Some to_todo\<rparr>) world0) = Inr first_todo
   \<and> logger rget \<in> {None, Some null_logger, Some simple_logger}
   \<and> snd (chosen (logger rget) (PResponse first_todo)) = Inr (PResponse first_todo)
   \<and> fst (to_get service rget ''todos/1'' (no_kw\<lparr>kw_transform := Some to_todo\<rparr>) world0) =
       Inr (PTodo \<lparr>todo_id = JInt 1, user_id = JInt 1, title = JStr ''delectus aut autem'',
                   completed = JBool False\<rparr>)
   \<and> out (snd (to_get service rget ''todos/1'' (no_kw\<lparr>kw_transform := Some to_todo\<rparr>) world0)) =
       [LogLine ''https://jsonplaceholder.typicode.com/todos/1'' 200 67777]"
proof -
  have h: "headers rget = Some 0" by (simp add: rget_def)
  have g: "service (sent world0)
       (request_of rget 0 ''todos/1'' (no_kw\<lparr>kw_transform := Some to_todo\<rparr>) world0) = Inr first_todo"
    by (simp add: example_defs request_of_def)
  have l: "logger rget \<in> {None, Some null_logger, Some simple_logger}" by (simp add: rget_def)
  show ?thesis
    using h g l stage_order [where c = rget and a = 0 and requests_get = service and w = world0
        and segment = "''todos/1''" and kw = "no_kw\<lparr>kw_transform := Some to_todo\<rparr>"
        and r = first_todo, OF h g]
    by (simp add: example_defs chosen_def simple_logger_def default_error_handler_def to_todo_def
        from_d_def Todo_def validate_def dataclass_fields_def getattr_def Let_def)
qed

section \<open>The error classifier\<close>

lemma Todo_cases:
  "Todo a b c d =
     (if \<not> isinstance a TInt then Inl (FieldTypeError ''id'' a)
      else if \<not> isinstance b TInt then Inl (FieldTypeError ''user_id'' b)
      else if \<not> isinstance c TStr then Inl (FieldTypeError ''title'' c)
      else if \<not> isinstance d TBool then Inl (FieldTypeError ''completed'' d)
      else Inr \<lparr>todo_id = a, user_id = b, title = c, completed = d\<rparr>)"
  by (simp add: Todo_def validate_def dataclass_fields_def getattr_def Let_def)







section \<open>The url\<close>

text \<open>
  Claim C3, as the code has it. fetch checks neither half of the url for emptiness: with
  the default headers configured, every call, whatever the base address and the segment,
  hands \<^verbatim>\<open>requests.get\<close> the url base address, separator, segment (for an empty
  segment the base address followed by the separator), and the outcome of the call is
  the transport's exception or what the stages make of its response. A failure for a
  malformed url can only come from the transport.
\<close>

theorem no_precondition_check:
  assumes "headers c = Some a"
  shows "sent (snd (to_get requests_get c segment kw w)) = sent w @ [request_of c a segment kw w]
       \<and> req_url (request_of c a segment kw w) = base_url c @ ''/'' @ segment
       \<and> req_url (request_of c a [] kw w) = base_url c @ ''/''
       \<and> fst (to_get requests_get c segment kw w) =
           (case requests_get (sent w) (request_of c a segment kw w) of
              Inl e \<Rightarrow> Inl e
            | Inr r \<Rightarrow> snd (run_in_order [chosen (logger c), chosen (error_handler c),
                                           chosen (kw_transform kw)] (PResponse r)))"
  using assms by (simp add: sent_to_get fst_to_get request_of_def del: run_in_order.simps)

theorem no_precondition_check_witness:
  "headers rget = Some 0
   \<and> sent (snd (to_get service rget [] no_kw world0)) = [request_of rget 0 [] no_kw world0]
   \<and> req_url (request_of rget 0 [] no_kw world0) = ''https://jsonplaceholder.typicode.com/''
   \<and> fst (to_get service rget [] no_kw world0) = Inr (PResponse home_page)"
proof -
  have h: "headers rget = Some 0" by (simp add: rget_def)
  show ?thesis
    using h no_precondition_check [where c = rget and a = 0 and requests_get = service
        and segment = "[]" and kw = no_kw and w = world0, OF h]
    by (simp add: example_defs request_of_def chosen_def
      simple_logger_def default_error_handler_def null_tranform_def overlay_def)
qed

text \<open>
  The claim as stated fails: the call with the empty segment dispatches a request to the
  base address followed by the separator and returns the response.
\<close>

theorem empty_segment_counterexample:
  "fst (to_get service rget [] no_kw world0) = Inr (PResponse home_page)
   \<and> map req_url (sent (snd (to_get service rget [] no_kw world0))) =
       [''https://jsonplaceholder.typicode.com/'']"
  by (simp add: to_get_Some example_defs request_of_def chosen_def
      simple_logger_def default_error_handler_def null_tranform_def overlay_def)

text \<open>
  Claim C4, as the code has it. With the default headers configured, the url of the
  request is the base address, one separator and the segment, for every base address and
  segment; fetch strips nothing, so the separator is doubled at the join point exactly
  when the base address ends with a separator or the segment begins with one.
\<close>

theorem url_join:
  assumes "headers c = Some a"
  shows "req_url (last (sent (snd (to_get requests_get c segment kw w)))) = base_url c @ ''/'' @ segment
       \<and> (doubled_separator_at_join (base_url c)
             (req_url (last (sent (snd (to_get requests_get c segment kw w)))))
            \<longleftrightarrow> (base_url c \<noteq> [] \<and> last (base_url c) = CHR ''/'')
                 \<or> (segment \<noteq> [] \<and> hd segment = CHR ''/''))"
proof -
  have u: "req_url (last (sent (snd (to_get requests_get c segment kw w)))) = base_url c @ ''/'' @ segment"
    using assms by (simp add: sent_to_get request_of_def)
  have d1: "take 2 (drop (length b) (b @ ''/'' @ s)) = ''//'' \<longleftrightarrow> (s \<noteq> [] \<and> hd s = CHR ''/'')"
    for b s :: string
    by (cases s) auto
  have d2: "take 2 (drop (length b - 1) (b @ ''/'' @ s)) = ''//'' \<longleftrightarrow> last b = CHR ''/''"
    if "b \<noteq> []" for b s :: string
    using that by (cases b rule: rev_cases) auto
  show ?thesis
  proof (cases "base_url c = []")
    case True
    show ?thesis unfolding u doubled_separator_at_join_def using d1 [of "[]" segment] True by simp
  next
    case False
    show ?thesis unfolding u doubled_separator_at_join_def
      using d1 [of "base_url c" segment] d2 [OF False, of segment] False by simp
  qed
qed

theorem url_join_witness:
  "headers rget = Some 0
   \<and> req_url (last (sent (snd (to_get service rget ''todos/1'' no_kw world0)))) =
       ''https://jsonplaceholder.typicode.com/todos/1''
   \<and> \<not> doubled_separator_at_join (base_url rget)
         (req_url (last (sent (snd (to_get service rget ''todos/1'' no_kw world0)))))"
proof -
  have h: "headers rget = Some 0" by (simp add: rget_def)
  show ?thesis
    using h url_join [where c = rget and a = 0 and requests_get = service
        and segment = "''todos/1''" and kw = no_kw and w = world0, OF h]
    by (simp add: rget_def BASE_URL_def sent_to_get request_of_def)
qed

text \<open>
  The claim as stated fails: base address and segment are not empty, and the url has a
  doubled separator at the join point.
\<close>

theorem url_join_counterexample:
  "BASE_URL \<noteq> [] \<and> ''/todos/1'' \<noteq> []
   \<and> req_url (last (sent (snd (to_get service rget ''/todos/1'' no_kw world0)))) =
       ''https://jsonplaceholder.typicode.com//todos/1''
   \<and> doubled_separator_at_join BASE_URL
       (req_url (last (sent (snd (to_get service rget ''/todos/1'' no_kw world0)))))"
  by (simp add: sent_to_get rget_def BASE_URL_def request_of_def doubled_separator_at_join_def)

section \<open>The headers\<close>

lemma store_calls:
  assumes "\<And>s kw w. store (snd (f s kw w)) a = store w a ++ overlay kw"
  shows "store (calls f cs w) a = foldl (\<lambda>m kw. m ++ overlay kw) (store w a) (map snd cs)"
proof (induction cs arbitrary: w)
  case Nil
  show ?case by simp
next
  case (Cons p cs)
  obtain s kw where p: "p = (s, kw)" by (cases p)
  show ?case by (simp add: p Cons.IH assms)
qed

lemma merged_dom: "dom m \<subseteq> dom (foldl (\<lambda>m kw. m ++ overlay kw) m kws)"
proof (induction kws arbitrary: m)
  case Nil
  show ?case by simp
next
  case (Cons kw kws)
  have "dom m \<subseteq> dom (m ++ overlay kw)" by auto
  also have "\<dots> \<subseteq> dom (foldl (\<lambda>m kw. m ++ overlay kw) (m ++ overlay kw) kws)" by (rule Cons.IH)
  finally show ?case by simp
qed

lemma merged_keep:
  "\<forall>kw\<in>set kws. k \<notin> dom (overlay kw) \<Longrightarrow> foldl (\<lambda>m kw. m ++ overlay kw) m kws k = m k"
  by (induction kws arbitrary: m) (auto simp: map_add_dom_app_simps)

lemma merged_empty:
  "\<forall>kw\<in>set kws. overlay kw = Map.empty \<Longrightarrow> foldl (\<lambda>m kw. m ++ overlay kw) m kws = m"
  by (induction kws arbitrary: m) auto

text \<open>
  Claim C5, as the code has it. With the default headers configured, the headers
  dispatched with the request are the content of the closed-over dict when the call is
  made, merged with the overlay of the call (the empty dict when the call gives none): a
  key of the overlay has the overlay's value, any other key has the value the dict holds
  then. After a sequence \<open>cs\<close> of calls of the pipeline on a dict that held the
  configured default set, that content is the default set merged, in order, with the
  overlays of \<open>cs\<close>; it is the default set itself when none of these calls gave an
  overlay with a key.
\<close>

theorem header_merge:
  assumes "headers c = Some a"
  shows "req_headers (last (sent (snd (to_get requests_get c segment kw w)))) = store w a ++ overlay kw
       \<and> (\<forall>k. k \<in> dom (overlay kw) \<longrightarrow>
             req_headers (last (sent (snd (to_get requests_get c segment kw w)))) k = overlay kw k)
       \<and> (\<forall>k. k \<notin> dom (overlay kw) \<longrightarrow>
             req_headers (last (sent (snd (to_get requests_get c segment kw w)))) k = store w a k)
       \<and> store (calls (to_get requests_get c) cs w) a =
             foldl (\<lambda>m kw. m ++ overlay kw) (store w a) (map snd cs)
       \<and> req_headers (last (sent (snd (to_get requests_get c segment kw
             (calls (to_get requests_get c) cs w))))) =
           foldl (\<lambda>m kw. m ++ overlay kw) (store w a) (map snd cs) ++ overlay kw
       \<and> ((\<forall>kw'\<in>set (map snd cs). overlay kw' = Map.empty) \<longrightarrow>
           store (calls (to_get requests_get c) cs w) a = store w a
           \<and> req_headers (last (sent (snd (to_get requests_get c segment kw
                (calls (to_get requests_get c) cs w))))) = store w a ++ overlay kw)"
proof -
  have st: "\<And>s kw w. store (snd (to_get requests_get c s kw w)) a = store w a ++ overlay kw"
    using assms by (simp add: store_to_get)
  have se: "\<And>w. req_headers (last (sent (snd (to_get requests_get c segment kw w)))) = store w a ++ overlay kw"
    using assms by (simp add: sent_to_get request_of_def)
  have sc: "store (calls (to_get requests_get c) cs w) a =
             foldl (\<lambda>m kw. m ++ overlay kw) (store w a) (map snd cs)"
    by (rule store_calls [of "to_get requests_get c" a, OF st])
  have e: "(\<forall>kw'\<in>set (map snd cs). overlay kw' = Map.empty) \<longrightarrow>
      foldl (\<lambda>m kw. m ++ overlay kw) (store w a) (map snd cs) = store w a"
    using merged_empty [of "map snd cs" "store w a"] by blast
  have m1: "req_headers (last (sent (snd (to_get requests_get c segment kw w)))) = store w a ++ overlay kw"
    by (rule se)
  have m2: "\<forall>k. k \<in> dom (overlay kw) \<longrightarrow>
             req_headers (last (sent (snd (to_get requests_get c segment kw w)))) k = overlay kw k"
    by (auto simp: se map_add_dom_app_simps)
  have m3: "\<forall>k. k \<notin> dom (overlay kw) \<longrightarrow>
             req_headers (last (sent (snd (to_get requests_get c segment kw w)))) k = store w a k"
    by (auto simp: se map_add_dom_app_simps)
  have m5: "req_headers (last (sent (snd (to_get requests_get c segment kw
             (calls (to_get requests_get c) cs w))))) =
           foldl (\<lambda>m kw. m ++ overlay kw) (store w a) (map snd cs) ++ overlay kw"
    by (simp add: se sc)
  have m6: "(\<forall>kw'\<in>set (map snd cs). overlay kw' = Map.empty) \<longrightarrow>
           store (calls (to_get requests_get c) cs w) a = store w a
           \<and> req_headers (last (sent (snd (to_get requests_get c segment kw
                (calls (to_get requests_get c) cs w))))) = store w a ++ overlay kw"
    using e by (simp add: m5 sc)
  show ?thesis by (intro conjI m1 m2 m3 sc m5 m6)
qed

theorem header_merge_witness:
  "headers rget = Some 0
   \<and> req_headers (last (sent (snd (to_get service rget ''todos/1''
        (no_kw\<lparr>kw_headers := Some [''x-my-header'' \<mapsto> ''999'', ''accept'' \<mapsto> ''text/html'']\<rparr>) world0))))
        ''x-my-header'' = Some ''999''
   \<and> req_headers (last (sent (snd (to_get service rget ''todos/1''
        (no_kw\<lparr>kw_headers := Some accept_html\<rparr>) world0))))
        ''x-my-header'' = Some ''12345''
   \<and> req_headers (last (sent (snd (to_get service rget ''todos/2''
        (no_kw\<lparr>kw_headers := Some accept_html\<rparr>)
        (calls (to_get service rget)
           [(''todos/1'', no_kw\<lparr>kw_headers := Some [''x-my-header'' \<mapsto> ''999'']\<rparr>)] world0)))))
        ''x-my-header'' = Some ''999''
   \<and> overlay no_kw = Map.empty
   \<and> req_headers (last (sent (snd (to_get service rget ''todos/2''
        (no_kw\<lparr>kw_headers := Some accept_html\<rparr>)
        (calls (to_get service rget) [(''todos/1'', no_kw)] world0)))))
       = DEFAULT_HEADER ++ accept_html"
proof -
  have h: "headers rget = Some 0" by (simp add: rget_def)
  show ?thesis
    using h
      header_merge [where c = rget and a = 0 and requests_get = service and segment = "''todos/1''"
        and kw = "no_kw\<lparr>kw_headers := Some [''x-my-header'' \<mapsto> ''999'', ''accept'' \<mapsto> ''text/html'']\<rparr>"
        and w = world0 and cs = "[]", OF h]
      header_merge [where c = rget and a = 0 and requests_get = service and segment = "''todos/1''"
        and kw = "no_kw\<lparr>kw_headers := Some accept_html\<rparr>"
        and w = world0 and cs = "[]", OF h]
      header_merge [where c = rget and a = 0 and requests_get = service and segment = "''todos/2''"
        and kw = "no_kw\<lparr>kw_headers := Some accept_html\<rparr>"
        and w = world0
        and cs = "[(''todos/1'', no_kw\<lparr>kw_headers := Some [''x-my-header'' \<mapsto> ''999'']\<rparr>)]", OF h]
      header_merge [where c = rget and a = 0 and requests_get = service and segment = "''todos/2''"
        and kw = "no_kw\<lparr>kw_headers := Some accept_html\<rparr>"
        and w = world0 and cs = "[(''todos/1'', no_kw)]", OF h]
    by (simp add: overlay_def no_kw_def world0_def DEFAULT_HEADER_def accept_html_def)
qed

text \<open>
  The claim as stated fails after a call with an overlay: the key of the first call's
  overlay is absent from the second call's overlay, and it is dispatched with the first
  overlay's value, not with its default value.
\<close>

theorem header_merge_counterexample:
  "store world0 0 = DEFAULT_HEADER
   \<and> DEFAULT_HEADER ''x-my-header'' = Some ''12345''
   \<and> accept_html ''x-my-header'' = None
   \<and> (DEFAULT_HEADER ++ accept_html) ''x-my-header'' = Some ''12345''
   \<and> req_headers (last (sent (snd (to_get service rget ''todos/2''
         (no_kw\<lparr>kw_headers := Some accept_html\<rparr>)
         (snd (to_get service rget ''todos/1''
                 (no_kw\<lparr>kw_headers := Some [''x-my-header'' \<mapsto> ''999'']\<rparr>) world0))))))
       ''x-my-header'' = Some ''999''"
  by (simp add: sent_to_get store_to_get request_of_def overlay_def rget_def world0_def
      DEFAULT_HEADER_def accept_html_def no_kw_def)

lemma persists:
  assumes st: "\<And>s kw w. store (snd (f s kw w)) a = store w a ++ overlay kw"
    and se: "\<And>s kw w. req_headers (last (sent (snd (f s kw w)))) = store w a ++ overlay kw"
    and h: "kw_headers kw = Some h"
  shows "store (snd (f segment kw w)) a = store w a ++ h
       \<and> dom h \<subseteq> dom (req_headers (last (sent (snd (f segment' kw' (calls f cs (snd (f segment kw w))))))))
       \<and> (\<forall>k\<in>dom h. (\<forall>kw''\<in>set (map snd cs @ [kw']). k \<notin> dom (overlay kw'')) \<longrightarrow>
            req_headers (last (sent (snd (f segment' kw' (calls f cs (snd (f segment kw w))))))) k = h k)"
proof -
  let ?w1 = "snd (f segment kw w)"
  let ?m = "foldl (\<lambda>m kw. m ++ overlay kw) (store ?w1 a) (map snd cs)"
  have o: "overlay kw = h" using h by (simp add: overlay_def)
  have s1: "store ?w1 a = store w a ++ h" by (simp add: st o)
  have hs: "req_headers (last (sent (snd (f segment' kw' (calls f cs ?w1))))) = ?m ++ overlay kw'"
    by (simp add: se store_calls [of f a, OF st])
  have "dom h \<subseteq> dom (store ?w1 a)" by (auto simp: s1)
  also have "\<dots> \<subseteq> dom ?m" by (rule merged_dom)
  also have "\<dots> \<subseteq> dom (?m ++ overlay kw')" by auto
  finally have d: "dom h \<subseteq> dom (?m ++ overlay kw')" .
  have k: "(?m ++ overlay kw') k = h k"
    if "k \<in> dom h" and "\<forall>kw''\<in>set (map snd cs @ [kw']). k \<notin> dom (overlay kw'')" for k
  proof -
    have "(?m ++ overlay kw') k = ?m k" using that(2) by (simp add: map_add_dom_app_simps)
    also have "\<dots> = store ?w1 a k" using that(2) by (intro merged_keep) simp
    also have "\<dots> = h k" using that(1) by (simp add: s1 map_add_dom_app_simps)
    finally show ?thesis .
  qed
  show ?thesis using s1 d k unfolding hs by blast
qed

text \<open>
  Claim C6. In the first revision with headers and in the final one, a call with an
  overlay \<open>h\<close> leaves the closed-over dict equal to its old content merged with \<open>h\<close>.
  After any further calls \<open>cs\<close> on the same pipeline, the next call still dispatches
  every key of \<open>h\<close>, and with the value \<open>h\<close> gave it unless an overlay of one of the
  calls in between or of that call names the key again.
\<close>

theorem overlay_persists:
  assumes "headers c = Some a" and "kw_headers kw = Some h" and "kw_headers kv = Some h"
  shows "(store (snd (to_get g c segment kw w)) a = store w a ++ h
       \<and> dom h \<subseteq> dom (req_headers (last (sent (snd (to_get g c segment' kw'
                      (calls (to_get g c) cs (snd (to_get g c segment kw w))))))))
       \<and> (\<forall>k\<in>dom h. (\<forall>kw''\<in>set (map snd cs @ [kw']). k \<notin> dom (overlay kw'')) \<longrightarrow>
            req_headers (last (sent (snd (to_get g c segment' kw'
                      (calls (to_get g c) cs (snd (to_get g c segment kw w))))))) k = h k))
     \<and> (store (snd (to_get_v2 g (base_url c) (headers c) segment kv w)) a = store w a ++ h
       \<and> dom h \<subseteq> dom (req_headers (last (sent (snd (to_get_v2 g (base_url c) (headers c) segment' kv'
                      (calls (to_get_v2 g (base_url c) (headers c)) cv
                         (snd (to_get_v2 g (base_url c) (headers c) segment kv w))))))))
       \<and> (\<forall>k\<in>dom h. (\<forall>kw''\<in>set (map snd cv @ [kv']). k \<notin> dom (overlay kw'')) \<longrightarrow>
            req_headers (last (sent (snd (to_get_v2 g (base_url c) (headers c) segment' kv'
                      (calls (to_get_v2 g (base_url c) (headers c)) cv
                         (snd (to_get_v2 g (base_url c) (headers c) segment kv w))))))) k = h k))"
proof (rule conjI)
  have st: "\<And>s kw w. store (snd (to_get g c s kw w)) a = store w a ++ overlay kw"
    using assms(1) by (simp add: store_to_get)
  have se: "\<And>s kw w. req_headers (last (sent (snd (to_get g c s kw w)))) = store w a ++ overlay kw"
    using assms(1) by (simp add: sent_to_get request_of_def)
  show "store (snd (to_get g c segment kw w)) a = store w a ++ h
       \<and> dom h \<subseteq> dom (req_headers (last (sent (snd (to_get g c segment' kw'
                      (calls (to_get g c) cs (snd (to_get g c segment kw w))))))))
       \<and> (\<forall>k\<in>dom h. (\<forall>kw''\<in>set (map snd cs @ [kw']). k \<notin> dom (overlay kw'')) \<longrightarrow>
            req_headers (last (sent (snd (to_get g c segment' kw'
                      (calls (to_get g c) cs (snd (to_get g c segment kw w))))))) k = h k)"
    by (rule persists [of "to_get g c" a, OF st se assms(2)])
next
  have st: "\<And>s kw w. store (snd (to_get_v2 g (base_url c) (headers c) s kw w)) a = store w a ++ overlay kw"
    using assms(1) by (simp add: store_to_get_v2)
  have se: "\<And>s kw w. req_headers (last (sent (snd (to_get_v2 g (base_url c) (headers c) s kw w))))
               = store w a ++ overlay kw"
    using assms(1) by (simp add: sent_to_get_v2)
  show "store (snd (to_get_v2 g (base_url c) (headers c) segment kv w)) a = store w a ++ h
       \<and> dom h \<subseteq> dom (req_headers (last (sent (snd (to_get_v2 g (base_url c) (headers c) segment' kv'
                      (calls (to_get_v2 g (base_url c) (headers c)) cv
                         (snd (to_get_v2 g (base_url c) (headers c) segment kv w))))))))
       \<and> (\<forall>k\<in>dom h. (\<forall>kw''\<in>set (map snd cv @ [kv']). k \<notin> dom (overlay kw'')) \<longrightarrow>
            req_headers (last (sent (snd (to_get_v2 g (base_url c) (headers c) segment' kv'
                      (calls (to_get_v2 g (base_url c) (headers c)) cv
                         (snd (to_get_v2 g (base_url c) (headers c) segment kv w))))))) k = h k)"
    by (rule persists [of "to_get_v2 g (base_url c) (headers c)" a, OF st se assms(3)])
qed

theorem overlay_persists_witness:
  "headers rget = Some 0
   \<and> kw_headers (no_kw\<lparr>kw_headers := Some accept_html\<rparr>) = Some accept_html
   \<and> kw_headers \<lparr>kw_headers = Some accept_html, kw_rest = []\<rparr> = Some accept_html
   \<and> store (snd (to_get service rget ''todos/1'' (no_kw\<lparr>kw_headers := Some accept_html\<rparr>) world0)) 0
       = DEFAULT_HEADER ++ accept_html
   \<and> req_headers (last (sent (snd (to_get service rget ''todos/2'' no_kw
        (calls (to_get service rget) [(''todos'', no_kw)]
           (snd (to_get service rget ''todos/1'' (no_kw\<lparr>kw_headers := Some accept_html\<rparr>) world0)))))))
        ''accept'' = Some ''text/html''
   \<and> req_headers (last (sent (snd (to_get_v2 service BASE_URL (Some 0) ''todos/2''
          \<lparr>kw_headers = None, kw_rest = []\<rparr>
        (calls (to_get_v2 service BASE_URL (Some 0)) [(''todos'', \<lparr>kw_headers = None, kw_rest = []\<rparr>)]
           (snd (to_get_v2 service BASE_URL (Some 0) ''todos/1''
                   \<lparr>kw_headers = Some accept_html, kw_rest = []\<rparr> world0)))))))
        ''accept'' = Some ''text/html''"
proof -
  have h: "headers rget = Some 0" by (simp add: rget_def)
  have k: "kw_headers (no_kw\<lparr>kw_headers := Some accept_html\<rparr>) = Some accept_html" by simp
  have v: "kw_headers \<lparr>kw_headers = Some accept_html, kw_rest = []\<rparr> = Some accept_html" by simp
  show ?thesis
    using h k v
      overlay_persists [where c = rget and a = 0 and g = service and w = world0
        and h = accept_html
        and kw = "no_kw\<lparr>kw_headers := Some accept_html\<rparr>"
        and kv = "\<lparr>kw_headers = Some accept_html, kw_rest = []\<rparr>"
        and segment = "''todos/1''" and segment' = "''todos/2''"
        and kw' = no_kw and kv' = "\<lparr>kw_headers = None, kw_rest = []\<rparr>"
        and cs = "[(''todos'', no_kw)]" and cv = "[(''todos'', \<lparr>kw_headers = None, kw_rest = []\<rparr>)]",
        OF h k v]
    by (simp add: accept_html_def overlay_def no_kw_def rget_def world0_def)
qed

text \<open>
  Claim C10. A pipeline created without default headers raises \<^verbatim>\<open>AttributeError\<close> at
  \<^verbatim>\<open>headers.update(h)\<close> on every call, for every segment and every keyword
  arguments; nothing is dispatched and nothing is changed.
\<close>

theorem missing_default_headers:
  assumes "headers c = None"
  shows "to_get requests_get c segment kw w = (Inl (AttributeError ''update''), w)"
  using assms by (simp add: to_get_def)

theorem missing_default_headers_witness:
  "headers (rget\<lparr>headers := None\<rparr>) = None
   \<and> to_get service (rget\<lparr>headers := None\<rparr>) ''todos/1'' no_kw world0
       = (Inl (AttributeError ''update''), world0)"
  using missing_default_headers [where c = "rget\<lparr>headers := None\<rparr>" and requests_get = service
      and segment = "''todos/1''" and kw = no_kw and w = world0]
  by (simp add: rget_def)

section \<open>Decoding\<close>

text \<open>
  Claim C7. A body that decodes to a dict with the keys \<^verbatim>\<open>id\<close>, \<^verbatim>\<open>userId\<close>,
  \<^verbatim>\<open>title\<close> and \<^verbatim>\<open>completed\<close>, whose values are instances of the declared types,
  decodes to the record with these values in the fields \<^verbatim>\<open>id\<close>, \<^verbatim>\<open>user_id\<close>,
  \<^verbatim>\<open>title\<close> and \<^verbatim>\<open>completed\<close>. The constructor raises the type error of the first
  field, in declaration order, whose value is not an instance of its declared type
  (\<^verbatim>\<open>isinstance\<close>, for which a bool is an int), and so does the decoding of a body with
  such a value.
\<close>

theorem decode_todo:
  "(json r = Some (JDict kvs) \<and> map_of kvs ''id'' = Some a \<and> map_of kvs ''userId'' = Some b
      \<and> map_of kvs ''title'' = Some c \<and> map_of kvs ''completed'' = Some d
      \<and> isinstance a TInt \<and> isinstance b TInt \<and> isinstance c TStr \<and> isinstance d TBool \<longrightarrow>
    to_todo (PResponse r) =
      ([], Inr (PTodo \<lparr>todo_id = a, user_id = b, title = c, completed = d\<rparr>)))
   \<and> Todo a b c d =
       (if \<not> isinstance a TInt then Inl (FieldTypeError ''id'' a)
        else if \<not> isinstance b TInt then Inl (FieldTypeError ''user_id'' b)
        else if \<not> isinstance c TStr then Inl (FieldTypeError ''title'' c)
        else if \<not> isinstance d TBool then Inl (FieldTypeError ''completed'' d)
        else Inr \<lparr>todo_id = a, user_id = b, title = c, completed = d\<rparr>)
   \<and> (\<not> (isinstance a TInt \<and> isinstance b TInt \<and> isinstance c TStr \<and> isinstance d TBool) \<longrightarrow>
        (\<exists>n v. Todo a b c d = Inl (FieldTypeError n v)))
   \<and> (json r = Some (JDict kvs) \<and> map_of kvs ''id'' = Some a \<and> map_of kvs ''userId'' = Some b
      \<and> map_of kvs ''title'' = Some c \<and> map_of kvs ''completed'' = Some d
      \<and> \<not> (isinstance a TInt \<and> isinstance b TInt \<and> isinstance c TStr \<and> isinstance d TBool) \<longrightarrow>
        (\<exists>n v. to_todo (PResponse r) = ([], Inl (FieldTypeError n v))))"
proof -
  have 1: "json r = Some (JDict kvs) \<and> map_of kvs ''id'' = Some a \<and> map_of kvs ''userId'' = Some b
      \<and> map_of kvs ''title'' = Some c \<and> map_of kvs ''completed'' = Some d \<longrightarrow>
      to_todo (PResponse r) = (case Todo a b c d of Inl e \<Rightarrow> ([], Inl e) | Inr t \<Rightarrow> ([], Inr (PTodo t)))"
    by (simp add: to_todo_def from_d_def)
  have 2: "\<not> (isinstance a TInt \<and> isinstance b TInt \<and> isinstance c TStr \<and> isinstance d TBool) \<longrightarrow>
        (\<exists>n v. Todo a b c d = Inl (FieldTypeError n v))"
    by (simp add: Todo_cases)
  show ?thesis using 1 2 by (auto simp: Todo_cases)
qed

theorem decode_todo_witness:
  "json first_todo = Some (JDict [(''userId'', JInt 1), (''id'', JInt 1),
                          (''title'', JStr ''delectus aut autem''), (''completed'', JBool False)])
   \<and> to_todo (PResponse first_todo) =
      ([], Inr (PTodo \<lparr>todo_id = JInt 1, user_id = JInt 1, title = JStr ''delectus aut autem'',
                       completed = JBool False\<rparr>))
   \<and> Todo (JStr ''1'') (JInt 1) (JStr ''delectus aut autem'') (JBool False)
       = Inl (FieldTypeError ''id'' (JStr ''1''))
   \<and> Todo (JInt 1) (JInt 1) (JStr ''delectus aut autem'') (JInt 0)
       = Inl (FieldTypeError ''completed'' (JInt 0))
   \<and> to_todo (PResponse mistyped_todo) = ([], Inl (FieldTypeError ''id'' (JStr ''1'')))"
  using decode_todo [where r = first_todo and a = "JInt 1" and b = "JInt 1"
        and c = "JStr ''delectus aut autem''" and d = "JBool False"
        and kvs = "[(''userId'', JInt 1), (''id'', JInt 1),
                          (''title'', JStr ''delectus aut autem''), (''completed'', JBool False)]"]
     decode_todo [where a = "JStr ''1''" and b = "JInt 1"
        and c = "JStr ''delectus aut autem''" and d = "JBool False"]
     decode_todo [where a = "JInt 1" and b = "JInt 1"
        and c = "JStr ''delectus aut autem''" and d = "JInt 0"]
     decode_todo [where r = mistyped_todo and a = "JStr ''1''" and b = "JInt 1"
        and c = "JStr ''delectus aut autem''" and d = "JBool False"
        and kvs = "[(''userId'', JInt 1), (''id'', JStr ''1''),
                          (''title'', JStr ''delectus aut autem''), (''completed'', JBool False)]"]
  by (simp add: first_todo_def mistyped_todo_def to_todo_def from_d_def Todo_cases)

lemma or_none_of_strict:
  "to_todo_or_none x =
     (case to_todo x of
        (evs, Inl (KeyError k)) \<Rightarrow> (evs, Inr PNone)
      | (evs, Inl (AttributeError n)) \<Rightarrow> (evs, Inr PNone)
      | other \<Rightarrow> other)"
  by (simp add: to_todo_or_none_def to_todo_def Let_def
      split: pyval.splits option.splits sum.splits exn.splits)

lemma to_todo_no_events: "fst (to_todo x) = []"
  by (simp add: to_todo_def split: pyval.splits option.splits sum.splits)

lemma to_todo_not_None: "to_todo x \<noteq> (evs, Inr PNone)"
  by (simp add: to_todo_def split: pyval.splits option.splits sum.splits)

lemma missing_key:
  assumes "\<not> {''id'', ''userId'', ''title'', ''completed''} \<subseteq> dom (map_of kvs)"
  shows "\<exists>k\<in>{''id'', ''userId'', ''title'', ''completed''}.
           k \<notin> dom (map_of kvs) \<and> from_d (JDict kvs) = Inl (KeyError k)"
  using assms by (auto simp: from_d_def split: option.splits)

lemma subscript_non_dict:
  "\<not> (\<exists>kvs. d = JDict kvs) \<Longrightarrow> \<exists>m. subscript d k = Inl (TypeError m)"
  by (cases d) auto

text \<open>
  Claim C8, as the code has it. For a body that decodes to a dict without one of the
  four keys, \<open>to_todo\<close> raises the key error of a missing key and \<open>to_todo_or_none\<close>
  returns \<^verbatim>\<open>None\<close>. \<open>to_todo_or_none\<close> turns a key error and an attribute error of
  the strict decoding into \<^verbatim>\<open>None\<close> and gives every other outcome of it back
  unchanged: it returns \<^verbatim>\<open>None\<close> exactly when the strict decoding raises one of these
  two. The other decode failures are raised by both transforms alike: the decode error
  of a body that is not JSON, a type error for a body that decodes to something other
  than a dict, and the type error of the constructor for a dict with the four keys and a
  value that is not an instance of its field's type.
\<close>

theorem lenient_decode:
  "(json r = Some (JDict kvs) \<and> \<not> {''id'', ''userId'', ''title'', ''completed''} \<subseteq> dom (map_of kvs) \<longrightarrow>
      (\<exists>k\<in>{''id'', ''userId'', ''title'', ''completed''}.
          k \<notin> dom (map_of kvs) \<and> to_todo (PResponse r) = ([], Inl (KeyError k)))
      \<and> to_todo_or_none (PResponse r) = ([], Inr PNone))
   \<and> to_todo_or_none x =
       (case to_todo x of
          (evs, Inl (KeyError k)) \<Rightarrow> (evs, Inr PNone)
        | (evs, Inl (AttributeError n)) \<Rightarrow> (evs, Inr PNone)
        | other \<Rightarrow> other)
   \<and> (to_todo_or_none x = ([], Inr PNone) \<longleftrightarrow>
        (\<exists>k. to_todo x = ([], Inl (KeyError k))) \<or> (\<exists>n. to_todo x = ([], Inl (AttributeError n))))
   \<and> (json r = None \<longrightarrow>
        to_todo (PResponse r) = ([], Inl JSONDecodeError)
        \<and> to_todo_or_none (PResponse r) = ([], Inl JSONDecodeError))
   \<and> (json r = Some d \<and> \<not> (\<exists>kvs. d = JDict kvs) \<longrightarrow>
        (\<exists>m. to_todo (PResponse r) = ([], Inl (TypeError m))
             \<and> to_todo_or_none (PResponse r) = ([], Inl (TypeError m))))
   \<and> (json r = Some (JDict kvs) \<and> map_of kvs ''id'' = Some a \<and> map_of kvs ''userId'' = Some b
        \<and> map_of kvs ''title'' = Some c \<and> map_of kvs ''completed'' = Some e
        \<and> \<not> (isinstance a TInt \<and> isinstance b TInt \<and> isinstance c TStr \<and> isinstance e TBool) \<longrightarrow>
        (\<exists>n v. to_todo (PResponse r) = ([], Inl (FieldTypeError n v))
             \<and> to_todo_or_none (PResponse r) = ([], Inl (FieldTypeError n v))))"
proof -
  have 1: "(\<exists>k\<in>{''id'', ''userId'', ''title'', ''completed''}.
          k \<notin> dom (map_of kvs) \<and> to_todo (PResponse r) = ([], Inl (KeyError k)))
      \<and> to_todo_or_none (PResponse r) = ([], Inr PNone)"
    if j: "json r = Some (JDict kvs)"
      and m: "\<not> {''id'', ''userId'', ''title'', ''completed''} \<subseteq> dom (map_of kvs)"
  proof -
    obtain k where k: "k \<in> {''id'', ''userId'', ''title'', ''completed''}" "k \<notin> dom (map_of kvs)"
        "from_d (JDict kvs) = Inl (KeyError k)"
      using missing_key [OF m] by blast
    have s: "to_todo (PResponse r) = ([], Inl (KeyError k))"
      by (simp add: to_todo_def j k(3))
    have l: "to_todo_or_none (PResponse r) = ([], Inr PNone)"
      by (simp add: or_none_of_strict s)
    show ?thesis using k(1,2) s l by blast
  qed
  have 3: "to_todo_or_none x = ([], Inr PNone) \<longleftrightarrow>
        (\<exists>k. to_todo x = ([], Inl (KeyError k))) \<or> (\<exists>n. to_todo x = ([], Inl (AttributeError n)))"
  proof (cases "to_todo x")
    case (Pair evs res)
    have e: "evs = []" using to_todo_no_events [of x] Pair by simp
    have n: "res \<noteq> Inr PNone" using to_todo_not_None [of x evs] Pair by simp
    show ?thesis using n
      by (auto simp: or_none_of_strict Pair e split: sum.splits exn.splits)
  qed
  have 4: "json r = None \<longrightarrow>
        to_todo (PResponse r) = ([], Inl JSONDecodeError)
        \<and> to_todo_or_none (PResponse r) = ([], Inl JSONDecodeError)"
    by (simp add: or_none_of_strict to_todo_def)
  have 5: "\<exists>m. to_todo (PResponse r) = ([], Inl (TypeError m))
             \<and> to_todo_or_none (PResponse r) = ([], Inl (TypeError m))"
    if j: "json r = Some d" and nd: "\<not> (\<exists>kvs. d = JDict kvs)"
  proof -
    obtain m where m: "subscript d ''id'' = Inl (TypeError m)"
      using subscript_non_dict [OF nd] by blast
    have s: "to_todo (PResponse r) = ([], Inl (TypeError m))"
      by (simp add: to_todo_def j from_d_def m)
    show ?thesis using s by (auto simp: or_none_of_strict)
  qed
  have 6: "\<exists>n v. to_todo (PResponse r) = ([], Inl (FieldTypeError n v))
             \<and> to_todo_or_none (PResponse r) = ([], Inl (FieldTypeError n v))"
    if j: "json r = Some (JDict kvs)" and k: "map_of kvs ''id'' = Some a" "map_of kvs ''userId'' = Some b"
        "map_of kvs ''title'' = Some c" "map_of kvs ''completed'' = Some e"
      and t: "\<not> (isinstance a TInt \<and> isinstance b TInt \<and> isinstance c TStr \<and> isinstance e TBool)"
  proof -
    have "\<exists>n v. Todo a b c e = Inl (FieldTypeError n v)"
      using t by (simp add: Todo_cases)
    then obtain n v where nv: "Todo a b c e = Inl (FieldTypeError n v)" by blast
    have s: "to_todo (PResponse r) = ([], Inl (FieldTypeError n v))"
      by (simp add: to_todo_def j from_d_def k nv)
    show ?thesis using s by (auto simp: or_none_of_strict)
  qed
  have c1: "json r = Some (JDict kvs) \<and> \<not> {''id'', ''userId'', ''title'', ''completed''} \<subseteq> dom (map_of kvs) \<longrightarrow>
      (\<exists>k\<in>{''id'', ''userId'', ''title'', ''completed''}.
          k \<notin> dom (map_of kvs) \<and> to_todo (PResponse r) = ([], Inl (KeyError k)))
      \<and> to_todo_or_none (PResponse r) = ([], Inr PNone)"
    using 1 by (intro impI) (elim conjE)
  have c5: "json r = Some d \<and> \<not> (\<exists>kvs. d = JDict kvs) \<longrightarrow>
        (\<exists>m. to_todo (PResponse r) = ([], Inl (TypeError m))
             \<and> to_todo_or_none (PResponse r) = ([], Inl (TypeError m)))"
    using 5 by (intro impI) (elim conjE)
  have c6: "json r = Some (JDict kvs) \<and> map_of kvs ''id'' = Some a \<and> map_of kvs ''userId'' = Some b
        \<and> map_of kvs ''title'' = Some c \<and> map_of kvs ''completed'' = Some e
        \<and> \<not> (isinstance a TInt \<and> isinstance b TInt \<and> isinstance c TStr \<and> isinstance e TBool) \<longrightarrow>
        (\<exists>n v. to_todo (PResponse r) = ([], Inl (FieldTypeError n v))
             \<and> to_todo_or_none (PResponse r) = ([], Inl (FieldTypeError n v)))"
    using 6 by (intro impI) (elim conjE)
  show ?thesis by (intro conjI c1 3 4 c5 c6 or_none_of_strict)
qed

theorem lenient_decode_witness:
  "json (not_found ''https://jsonplaceholder.typicode.com/todos/DOES-NOT-EXIST'') = Some (JDict [])
   \<and> \<not> {''id'', ''userId'', ''title'', ''completed''} \<subseteq> dom (map_of ([] :: (string \<times> jvalue) list))
   \<and> to_todo (PResponse (not_found ''https://jsonplaceholder.typicode.com/todos/DOES-NOT-EXIST''))
       = ([], Inl (KeyError ''id''))
   \<and> to_todo_or_none (PResponse (not_found ''https://jsonplaceholder.typicode.com/todos/DOES-NOT-EXIST''))
       = ([], Inr PNone)
   \<and> json home_page = None
   \<and> to_todo_or_none (PResponse home_page) = ([], Inl JSONDecodeError)
   \<and> json todo_list = Some (JList [])
   \<and> to_todo_or_none (PResponse todo_list) = to_todo (PResponse todo_list)
   \<and> to_todo_or_none (PResponse todo_list) \<noteq> ([], Inr PNone)
   \<and> to_todo_or_none (PResponse mistyped_todo) = ([], Inl (FieldTypeError ''id'' (JStr ''1'')))"
  using lenient_decode [where r = "not_found ''https://jsonplaceholder.typicode.com/todos/DOES-NOT-EXIST''"
      and kvs = "[]"
      and x = "PResponse (not_found ''https://jsonplaceholder.typicode.com/todos/DOES-NOT-EXIST'')"]
    lenient_decode [where r = home_page]
    lenient_decode [where r = todo_list and d = "JList []"]
    lenient_decode [where r = mistyped_todo and a = "JStr ''1''" and b = "JInt 1"
        and c = "JStr ''delectus aut autem''" and e = "JBool False"
        and kvs = "[(''userId'', JInt 1), (''id'', JStr ''1''),
                          (''title'', JStr ''delectus aut autem''), (''completed'', JBool False)]"]
  by (simp add: not_found_def home_page_def todo_list_def mistyped_todo_def first_todo_def
      to_todo_def from_d_def Todo_cases or_none_of_strict)

text \<open>
  The claim as stated fails on its last part: a body with a string for \<^verbatim>\<open>id\<close> and a
  body that is not JSON both fail to decode, and \<open>to_todo_or_none\<close> raises the failure
  instead of returning \<^verbatim>\<open>None\<close>.
\<close>

theorem lenient_decode_counterexample:
  "to_todo (PResponse mistyped_todo) = ([], Inl (FieldTypeError ''id'' (JStr ''1'')))
   \<and> to_todo_or_none (PResponse mistyped_todo) = ([], Inl (FieldTypeError ''id'' (JStr ''1'')))
   \<and> to_todo (PResponse home_page) = ([], Inl JSONDecodeError)
   \<and> to_todo_or_none (PResponse home_page) = ([], Inl JSONDecodeError)"
  by (simp add: or_none_of_strict to_todo_def from_d_def Todo_cases mistyped_todo_def first_todo_def
      home_page_def)

section \<open>The identity pipeline\<close>

text \<open>
  Claim C9. The composition of the identity transform, the identity error classifier and
  the identity logger (\<open>null_tranform\<close> three times, or with \<open>null_logger\<close> as the
  logger) returns every value it is applied to, unchanged, and prints nothing; a fetch
  configured with these stages returns the response of the transport as it is.
\<close>

theorem identity_pipeline:
  "(case compose [null_tranform, null_tranform, null_tranform] of
      Inl e \<Rightarrow> False | Inr transform \<Rightarrow> transform x = ([], Inr x))
   \<and> (case compose [null_tranform, null_tranform, null_logger] of
      Inl e \<Rightarrow> False | Inr transform \<Rightarrow> transform x = ([], Inr x))
   \<and> (headers c = Some a \<and> error_handler c \<in> {None, Some null_tranform}
        \<and> logger c \<in> {None, Some null_tranform, Some null_logger}
        \<and> kw_transform kw \<in> {None, Some null_tranform}
        \<and> requests_get (sent w) (request_of c a segment kw w) = Inr r \<longrightarrow>
      fst (to_get requests_get c segment kw w) = Inr (PResponse r)
      \<and> out (snd (to_get requests_get c segment kw w)) = out w)"
proof -
  have a: "compose_two (compose_two null_tranform null_tranform) null_tranform x = ([], Inr x)"
    by (simp add: compose_two_def null_tranform_def)
  have b: "compose_two (compose_two null_tranform null_tranform) null_logger x = ([], Inr x)"
    by (simp add: compose_two_def null_tranform_def null_logger_def)
  have c: "headers c = Some a \<and> error_handler c \<in> {None, Some null_tranform}
        \<and> logger c \<in> {None, Some null_tranform, Some null_logger}
        \<and> kw_transform kw \<in> {None, Some null_tranform}
        \<and> requests_get (sent w) (request_of c a segment kw w) = Inr r \<longrightarrow>
      fst (to_get requests_get c segment kw w) = Inr (PResponse r)
      \<and> out (snd (to_get requests_get c segment kw w)) = out w"
    by (auto simp: to_get_Some chosen_def null_tranform_def null_logger_def)
  show ?thesis using a b c by (simp add: compose_three)
qed

theorem identity_pipeline_witness:
  "headers (rget\<lparr>error_handler := None, logger := Some null_logger\<rparr>) = Some 0
   \<and> error_handler (rget\<lparr>error_handler := None, logger := Some null_logger\<rparr>) \<in> {None, Some null_tranform}
   \<and> logger (rget\<lparr>error_handler := None, logger := Some null_logger\<rparr>)
        \<in> {None, Some null_tranform, Some null_logger}
   \<and> kw_transform no_kw \<in> {None, Some null_tranform}
   \<and> service (sent world0)
        (request_of (rget\<lparr>error_handler := None, logger := Some null_logger\<rparr>) 0 ''todos/1'' no_kw world0)
       = Inr first_todo
   \<and> fst (to_get service (rget\<lparr>error_handler := None, logger := Some null_logger\<rparr>) ''todos/1'' no_kw world0)
       = Inr (PResponse first_todo)
   \<and> out (snd (to_get service (rget\<lparr>error_handler := None, logger := Some null_logger\<rparr>) ''todos/1'' no_kw world0))
       = []"
  using identity_pipeline [where c = "rget\<lparr>error_handler := None, logger := Some null_logger\<rparr>"
      and a = 0 and requests_get = service and segment = "''todos/1''" and kw = no_kw
      and w = world0 and r = first_todo and x = "PResponse first_todo"]
  by (simp add: example_defs request_of_def)

end
